theory Spec2Isabelle
  imports Main "HOL-Library.Word"
begin

section \<open>JavaScript strings\<close>

text \<open>
  The program is the React component of \<^verbatim>\<open>src/frontend/src/App.js\<close>. A JavaScript
  string is a sequence of UTF-16 code units, and \<^verbatim>\<open>.length\<close>, \<^verbatim>\<open>.substring\<close> and
  \<^verbatim>\<open>.trim\<close> count and compare code units, so a string is a list of 16-bit words.
  String literals of the source are ASCII; \<open>js\<close> embeds them.
\<close>

type_synonym js_string = "16 word list"

definition js :: "string \<Rightarrow> js_string" where
  "js s = map (\<lambda>c. of_nat (of_char c)) s"

text \<open>
  \<^verbatim>\<open>s.substring(start, end)\<close>: both indices are clamped to \<open>[0, length]\<close> and swapped when
  the first exceeds the second.
\<close>

definition substring :: "js_string \<Rightarrow> int \<Rightarrow> int \<Rightarrow> js_string" where
  "substring s start end' =
     (let len = int (length s);
          finalStart = min (max start 0) len;
          finalEnd = min (max end' 0) len;
          from = min finalStart finalEnd;
          to = max finalStart finalEnd
      in take (nat (to - from)) (drop (nat from) s))"

text \<open>
  \<^verbatim>\<open>xs.join(sep)\<close> on an array of strings.
\<close>

fun join :: "js_string \<Rightarrow> js_string list \<Rightarrow> js_string" where
  "join sep [] = []"
| "join sep [x] = x"
| "join sep (x # y # ys) = x @ sep @ join sep (y # ys)"

section \<open>Display helpers: formatAuthors and truncateAbstract\<close>

text \<open>
  \<^verbatim>\<open>
  const formatAuthors = (authors) => {
    if (!authors || authors.length === 0) return "Unknown authors";
    if (authors.length === 1) return authors[0];
    if (authors.length === 2) return authors.join(" and ");
    return `${authors.slice(0, 2).join(", ")} et al.`;
  };
  \<close>
  The argument is \<^verbatim>\<open>paper.authors\<close>: an array of strings, or absent (\<open>None\<close>).
\<close>

definition formatAuthors :: "js_string list option \<Rightarrow> js_string" where
  "formatAuthors authors =
     (case authors of
        None \<Rightarrow> js ''Unknown authors''
      | Some as \<Rightarrow>
          if length as = 0 then js ''Unknown authors''
          else if length as = 1 then as ! 0
          else if length as = 2 then join (js '' and '') as
          else join (js '', '') (take 2 as) @ js '' et al.'')"

text \<open>
  \<^verbatim>\<open>
  const truncateAbstract = (abstract, maxLength = 300) => {
    if (!abstract || abstract.length <= maxLength) return abstract;
    return abstract.substring(0, maxLength) + "...";
  };
  \<close>
  The abstract is a string or absent; an absent abstract and the empty string are both
  falsy and are returned as they are. The only call site passes no \<^verbatim>\<open>maxLength\<close>, so
  the default 300 applies.
\<close>

definition truncateAbstract :: "js_string option \<Rightarrow> int \<Rightarrow> js_string option" where
  "truncateAbstract abstract maxLength =
     (case abstract of
        None \<Rightarrow> None
      | Some a \<Rightarrow>
          if a = [] \<or> int (length a) \<le> maxLength then Some a
          else Some (substring a 0 maxLength @ js ''...''))"

section \<open>Trimming and parseInt\<close>

text \<open>
  \<^verbatim>\<open>String.prototype.trim\<close> removes the ECMAScript WhiteSpace and LineTerminator code
  points from both ends: TAB, LF, VT, FF, CR, SPACE, NO-BREAK SPACE, U+1680, U+2000 to
  U+200A, U+2028, U+2029, U+202F, U+205F, U+3000 and U+FEFF.
\<close>

definition is_white_space :: "16 word \<Rightarrow> bool" where
  "is_white_space c \<longleftrightarrow>
     c = 0x09 \<or> c = 0x0A \<or> c = 0x0B \<or> c = 0x0C \<or> c = 0x0D \<or> c = 0x20 \<or> c = 0xA0
     \<or> c = 0x1680 \<or> (0x2000 \<le> c \<and> c \<le> 0x200A) \<or> c = 0x2028 \<or> c = 0x2029
     \<or> c = 0x202F \<or> c = 0x205F \<or> c = 0x3000 \<or> c = 0xFEFF"

definition trim :: "js_string \<Rightarrow> js_string" where
  "trim s = rev (dropWhile is_white_space (rev (dropWhile is_white_space s)))"

text \<open>
  A JavaScript Number as far as \<^verbatim>\<open>parseInt\<close> produces one: \<open>NaN\<close>, an integer that a
  double represents exactly (\<open>Num\<close>), or an infinity. \<^verbatim>\<open>parseInt\<close> returns the Number for
  the integer it read: integers up to \<open>2^53\<close> in absolute value are themselves Numbers, a
  larger one is rounded to 53 significant bits, to nearest and a tie to the even
  neighbour, and what rounds to \<open>2^1024\<close> or more is an infinity. The sign of zero is not
  kept; for numerals of more than 20 significant digits ECMA-262 lets an implementation
  drop the digits after the 20th, which \<open>to_number\<close> does not do.
\<close>

datatype js_number = NaN | Num int | PosInfinity | NegInfinity

function bit_length :: "int \<Rightarrow> nat" where
  "bit_length n = (if n \<le> 0 then 0 else Suc (bit_length (n div 2)))"
  by pat_completeness auto
termination
  by (relation "measure nat") auto

declare bit_length.simps [simp del]

definition round_to_double :: "int \<Rightarrow> int option" where
  "round_to_double a =
     (if a \<le> 2 ^ 53 then Some a
      else
        let e = bit_length a - 53;
            q = a div 2 ^ e;
            r = a mod 2 ^ e;
            half = 2 ^ (e - 1);
            q' = (if half < r \<or> (r = half \<and> odd q) then q + 1 else q);
            m = q' * 2 ^ e
        in if m < 2 ^ 1024 then Some m else None)"

definition to_number :: "int \<Rightarrow> js_number" where
  "to_number n =
     (case round_to_double \<bar>n\<bar> of
        None \<Rightarrow> if n < 0 then NegInfinity else PosInfinity
      | Some m \<Rightarrow> Num (if n < 0 then - m else m))"

definition digit_value :: "16 word \<Rightarrow> nat option" where
  "digit_value c =
     (if 0x30 \<le> c \<and> c \<le> 0x39 then Some (unat c - 0x30)
      else if 0x61 \<le> c \<and> c \<le> 0x7A then Some (unat c - 0x61 + 10)
      else if 0x41 \<le> c \<and> c \<le> 0x5A then Some (unat c - 0x41 + 10)
      else None)"

definition is_radix_digit :: "nat \<Rightarrow> 16 word \<Rightarrow> bool" where
  "is_radix_digit R c = (case digit_value c of None \<Rightarrow> False | Some d \<Rightarrow> d < R)"

definition radix_value :: "nat \<Rightarrow> js_string \<Rightarrow> int" where
  "radix_value R Z =
     foldl (\<lambda>acc c. acc * int R + (case digit_value c of None \<Rightarrow> 0 | Some d \<Rightarrow> int d)) 0 Z"

text \<open>
  \<^verbatim>\<open>parseInt(string)\<close> with no radix argument, after ECMA-262: skip leading white space,
  read an optional sign, switch to radix 16 after a \<^verbatim>\<open>0x\<close> or \<^verbatim>\<open>0X\<close> prefix and to radix 10
  otherwise, take the longest prefix of digits of that radix; no digit gives \<open>NaN\<close>.
\<close>

definition parseInt :: "js_string \<Rightarrow> js_number" where
  "parseInt string =
     (let S = dropWhile is_white_space string;
          sign = (case S of c # _ \<Rightarrow> if c = 0x2D then - 1 else 1 | [] \<Rightarrow> (1 :: int));
          S1 = (case S of c # cs \<Rightarrow> if c = 0x2B \<or> c = 0x2D then cs else S | [] \<Rightarrow> S);
          hex = (case S1 of a # b # _ \<Rightarrow> a = 0x30 \<and> (b = 0x78 \<or> b = 0x58) | _ \<Rightarrow> False);
          R = (if hex then 16 else 10);
          S2 = (if hex then drop 2 S1 else S1);
          Z = takeWhile (is_radix_digit R) S2
      in if Z = [] then NaN else to_number (sign * radix_value R Z))"

section \<open>Data of the component\<close>

text \<open>
  The records the backend returns, with the fields the component reads:
  \<^verbatim>\<open>id, title, authors, year, venue, abstract, citation_count, doi, url, pdf_url, source\<close>
  of a paper, \<^verbatim>\<open>query, author, venue, year_range\<close> of the echoed query, and
  \<^verbatim>\<open>id, query, result_count, timestamp\<close> of a history item.
\<close>

record paper =
  paper_id :: js_string
  paper_title :: js_string
  paper_authors :: "js_string list option"
  paper_year :: "int option"
  paper_venue :: "js_string option"
  paper_abstract :: "js_string option"
  paper_citation_count :: nat
  paper_doi :: "js_string option"
  paper_url :: "js_string option"
  paper_pdf_url :: "js_string option"
  paper_source :: js_string

record query_info =
  qi_query :: js_string
  qi_author :: "js_string option"
  qi_venue :: "js_string option"
  qi_year_range :: js_string

record history_item =
  hist_id :: js_string
  hist_query :: js_string
  hist_result_count :: nat
  hist_timestamp :: js_string

text \<open>The body of \<^verbatim>\<open>POST /api/search\<close> (\<^verbatim>\<open>searchData\<close>) and of its response.\<close>

record search_data =
  sd_query :: js_string
  sd_author :: "js_string option"
  sd_venue :: "js_string option"
  sd_year_from :: "js_number option"
  sd_year_to :: "js_number option"
  sd_limit :: nat

record search_response =
  resp_papers :: "paper list"
  resp_total_count :: nat
  resp_query_info :: query_info

text \<open>
  The \<^verbatim>\<open>useState\<close> cells of \<^verbatim>\<open>App\<close> that the handlers read or write. The theme flag and
  the advanced-panel toggle are presentation state that no handler below touches.
\<close>

record app_state =
  query :: js_string
  author :: js_string
  venue :: js_string
  yearFrom :: js_string
  yearTo :: js_string
  searchResults :: "paper list"
  loading :: bool
  searchHistory :: "history_item list"
  totalCount :: nat
  queryInfo :: "query_info option"

definition initial_state :: app_state where
  "initial_state =
     \<lparr>query = [], author = [], venue = [], yearFrom = [], yearTo = [], searchResults = [],
      loading = False, searchHistory = [], totalCount = 0, queryInfo = None\<rparr>"

text \<open>
  What a handler does besides writing state: calls on the event, on axios, on the console
  and on \<^verbatim>\<open>alert\<close>, in the order they happen. A promise settles with a value or is
  rejected with an error (kept as its message). A fulfilled search carries a body with
  the three fields the handler reads.
\<close>

datatype effect =
    PreventDefault
  | HttpPostSearch search_data
  | HttpGetHistory
  | HttpDeleteHistory
  | ConsoleError js_string
  | Alert js_string

datatype 'a outcome = Fulfilled 'a | Rejected js_string

section \<open>The handlers\<close>

text \<open>
  An \<^verbatim>\<open>async\<close> handler runs up to its first \<^verbatim>\<open>await\<close> when it is called and resumes
  when the awaited promise settles; other handlers may run in between. Each handler is
  therefore split at its \<^verbatim>\<open>await\<close>: one function for the part that runs at the call and
  one for the part that runs when the promise settles. The state setters of React write
  the current cell whatever render the handler was created in, so the resumed part acts
  on the state of the moment it resumes. Each part returns the new state and the effects it
  performed.

  \<^verbatim>\<open>
  const loadSearchHistory = async () => {
    try {
      const response = await axios.get(`${API}/search/history`);
      setSearchHistory(response.data);
    } catch (error) {
      console.error("Error loading search history:", error);
    }
  };
  \<close>
\<close>

definition loadSearchHistory_call :: "app_state \<Rightarrow> app_state \<times> effect list" where
  "loadSearchHistory_call st = (st, [HttpGetHistory])"

definition loadSearchHistory_settle ::
  "history_item list outcome \<Rightarrow> app_state \<Rightarrow> app_state \<times> effect list" where
  "loadSearchHistory_settle out st =
     (case out of
        Fulfilled data \<Rightarrow> (st\<lparr>searchHistory := data\<rparr>, [])
      | Rejected error \<Rightarrow> (st, [ConsoleError (js ''Error loading search history:'')]))"

text \<open>
  \<^verbatim>\<open>
  const handleSearch = async (e) => {
    e.preventDefault();
    if (!query.trim()) return;

    setLoading(true);
    try {
      const searchData = {
        query: query.trim(),
        author: author.trim() || null,
        venue: venue.trim() || null,
        year_from: yearFrom ? parseInt(yearFrom) : null,
        year_to: yearTo ? parseInt(yearTo) : null,
        limit: 20
      };

      const response = await axios.post(`${API}/search`, searchData);
      setSearchResults(response.data.papers);
      setTotalCount(response.data.total_count);
      setQueryInfo(response.data.query_info);
      loadSearchHistory(); // Refresh history
    } catch (error) {
      console.error("Search error:", error);
      alert("Search failed. Please try again.");
    } finally {
      setLoading(false);
    }
  };
  \<close>
  A string is falsy exactly when it is empty, so \<^verbatim>\<open>s || null\<close> is \<open>None\<close> for the empty
  string and \<^verbatim>\<open>yearFrom ? parseInt(yearFrom) : null\<close> parses every non-empty string.
\<close>

definition or_null :: "js_string \<Rightarrow> js_string option" where
  "or_null s = (if s = [] then None else Some s)"

definition searchData :: "app_state \<Rightarrow> search_data" where
  "searchData st =
     \<lparr>sd_query = trim (query st),
      sd_author = or_null (trim (author st)),
      sd_venue = or_null (trim (venue st)),
      sd_year_from = (if yearFrom st = [] then None else Some (parseInt (yearFrom st))),
      sd_year_to = (if yearTo st = [] then None else Some (parseInt (yearTo st))),
      sd_limit = 20\<rparr>"

definition handleSearch_call :: "app_state \<Rightarrow> app_state \<times> effect list" where
  "handleSearch_call st =
     (if trim (query st) = [] then (st, [PreventDefault])
      else (st\<lparr>loading := True\<rparr>, [PreventDefault, HttpPostSearch (searchData st)]))"

definition handleSearch_settle ::
  "search_response outcome \<Rightarrow> app_state \<Rightarrow> app_state \<times> effect list" where
  "handleSearch_settle out st =
     (case out of
        Fulfilled data \<Rightarrow>
          (st\<lparr>searchResults := resp_papers data,
              totalCount := resp_total_count data,
              queryInfo := Some (resp_query_info data),
              loading := False\<rparr>,
           snd (loadSearchHistory_call st))
      | Rejected error \<Rightarrow>
          (st\<lparr>loading := False\<rparr>,
           [ConsoleError (js ''Search error:''),
            Alert (js ''Search failed. Please try again.'')]))"

text \<open>
  \<^verbatim>\<open>
  const clearHistory = async () => {
    try {
      await axios.delete(`${API}/search/history`);
      setSearchHistory([]);
      // Force refresh of search history to ensure UI is updated
      await loadSearchHistory();
    } catch (error) {
      console.error("Error clearing history:", error);
    }
  };
  \<close>
  \<^verbatim>\<open>loadSearchHistory\<close> catches its own errors, so the second \<^verbatim>\<open>await\<close> never throws and
  nothing of \<^verbatim>\<open>clearHistory\<close> runs after it.
\<close>

definition clearHistory_call :: "app_state \<Rightarrow> app_state \<times> effect list" where
  "clearHistory_call st = (st, [HttpDeleteHistory])"

definition clearHistory_settle :: "unit outcome \<Rightarrow> app_state \<Rightarrow> app_state \<times> effect list" where
  "clearHistory_settle out st =
     (case out of
        Fulfilled _ \<Rightarrow>
          (st\<lparr>searchHistory := []\<rparr>, snd (loadSearchHistory_call (st\<lparr>searchHistory := []\<rparr>)))
      | Rejected error \<Rightarrow> (st, [ConsoleError (js ''Error clearing history:'')]))"

text \<open>The sidebar renders \<^verbatim>\<open>searchHistory.slice(0, 10)\<close>.\<close>

definition displayed_history :: "app_state \<Rightarrow> history_item list" where
  "displayed_history st = take 10 (searchHistory st)"

section \<open>The component with its requests in flight\<close>

text \<open>
  The component together with the promises it is waiting for: the search requests posted
  and not yet settled (oldest first), the number of history fetches and of history
  deletions not yet settled, and the effects performed so far.
\<close>

record world =
  app :: app_state
  in_flight :: "search_data list"
  pending_gets :: nat
  pending_deletes :: nat
  log :: "effect list"

definition initial_world :: world where
  "initial_world =
     \<lparr>app = initial_state, in_flight = [], pending_gets = 0, pending_deletes = 0, log = []\<rparr>"

fun posted :: "effect list \<Rightarrow> search_data list" where
  "posted [] = []"
| "posted (HttpPostSearch sd # es) = sd # posted es"
| "posted (_ # es) = posted es"

definition perform :: "app_state \<times> effect list \<Rightarrow> world \<Rightarrow> world" where
  "perform r w =
     w\<lparr>app := fst r,
       in_flight := in_flight w @ posted (snd r),
       pending_gets := pending_gets w + count_list (snd r) HttpGetHistory,
       pending_deletes := pending_deletes w + count_list (snd r) HttpDeleteHistory,
       log := log w @ snd r\<rparr>"

text \<open>
  What can happen: the component mounts (the first effect hook loads the history), an
  input's \<^verbatim>\<open>onChange\<close> writes its cell, a handler is called, or a pending promise settles.
  \<open>SearchSettles i\<close> settles the request at position \<open>i\<close> of \<open>in_flight\<close>; requests settle
  in any order. An event naming a promise that is not pending does nothing. \<open>step\<close> is
  what the handlers do when called; which calls the rendered page allows is \<open>enabled\<close>,
  further down.
\<close>

datatype event =
    Mount
  | SetQuery js_string
  | SetAuthor js_string
  | SetVenue js_string
  | SetYearFrom js_string
  | SetYearTo js_string
  | HandleSearch
  | SearchSettles nat "search_response outcome"
  | HistorySettles "history_item list outcome"
  | ClearHistory
  | DeleteSettles "unit outcome"

fun step :: "event \<Rightarrow> world \<Rightarrow> world" where
  "step Mount w = perform (loadSearchHistory_call (app w)) w"
| "step (SetQuery s) w = w\<lparr>app := (app w)\<lparr>query := s\<rparr>\<rparr>"
| "step (SetAuthor s) w = w\<lparr>app := (app w)\<lparr>author := s\<rparr>\<rparr>"
| "step (SetVenue s) w = w\<lparr>app := (app w)\<lparr>venue := s\<rparr>\<rparr>"
| "step (SetYearFrom s) w = w\<lparr>app := (app w)\<lparr>yearFrom := s\<rparr>\<rparr>"
| "step (SetYearTo s) w = w\<lparr>app := (app w)\<lparr>yearTo := s\<rparr>\<rparr>"
| "step HandleSearch w = perform (handleSearch_call (app w)) w"
| "step (SearchSettles i out) w =
     (if i < length (in_flight w)
      then perform (handleSearch_settle out (app w))
             (w\<lparr>in_flight := take i (in_flight w) @ drop (Suc i) (in_flight w)\<rparr>)
      else w)"
| "step (HistorySettles out) w =
     (if 0 < pending_gets w
      then perform (loadSearchHistory_settle out (app w)) (w\<lparr>pending_gets := pending_gets w - 1\<rparr>)
      else w)"
| "step ClearHistory w = perform (clearHistory_call (app w)) w"
| "step (DeleteSettles out) w =
     (if 0 < pending_deletes w
      then perform (clearHistory_settle out (app w)) (w\<lparr>pending_deletes := pending_deletes w - 1\<rparr>)
      else w)"

fun run :: "event list \<Rightarrow> world \<Rightarrow> world" where
  "run [] w = w"
| "run (e # es) w = run es (step e w)"

section \<open>Decimal numerals and example data\<close>

text \<open>
  The decimal numeral of an integer, as a user types it into a year field: used to state
  what \<open>parseInt\<close> returns on numeric input.
\<close>

definition is_decimal_digit :: "16 word \<Rightarrow> bool" where
  "is_decimal_digit c \<longleftrightarrow> 0x30 \<le> c \<and> c \<le> 0x39"

definition digit_char :: "nat \<Rightarrow> 16 word" where
  "digit_char d = of_nat (0x30 + d)"

fun decimal :: "nat \<Rightarrow> js_string" where
  "decimal n = (if n < 10 then [digit_char n] else decimal (n div 10) @ [digit_char (n mod 10)])"

declare decimal.simps [simp del]

definition decimal_int :: "int \<Rightarrow> js_string" where
  "decimal_int i = (if i < 0 then 0x2D # decimal (nat (- i)) else decimal (nat i))"

section \<open>What the page lets through\<close>

text \<open>
  The two year cells are written only by \<^verbatim>\<open>onChange\<close> of inputs of \<^verbatim>\<open>type="number"\<close>. The
  value of such an input is the empty string or a valid floating-point number of the HTML
  standard: an optional minus sign, then digits or a fraction (a full stop and digits) or
  both, then optionally an exponent (\<^verbatim>\<open>e\<close> or \<^verbatim>\<open>E\<close>, an optional sign, digits).
\<close>

definition strip_minus :: "js_string \<Rightarrow> js_string" where
  "strip_minus s = (case s of c # cs \<Rightarrow> if c = 0x2D then cs else s | [] \<Rightarrow> s)"

definition valid_floating_point_number :: "js_string \<Rightarrow> bool" where
  "valid_floating_point_number s =
     (let s1 = strip_minus s;
          ip = takeWhile is_decimal_digit s1;
          s2 = dropWhile is_decimal_digit s1;
          has_frac = (case s2 of c # _ \<Rightarrow> c = 0x2E | [] \<Rightarrow> False);
          fp = (if has_frac then takeWhile is_decimal_digit (tl s2) else []);
          s3 = (if has_frac then dropWhile is_decimal_digit (tl s2) else s2);
          has_exp = (case s3 of c # _ \<Rightarrow> c = 0x65 \<or> c = 0x45 | [] \<Rightarrow> False);
          s4 = (if has_exp
                then (case tl s3 of c # cs \<Rightarrow> if c = 0x2B \<or> c = 0x2D then cs else c # cs
                      | [] \<Rightarrow> [])
                else [])
      in (if ip = [] then has_frac else True)
         \<and> (if has_frac then fp \<noteq> [] else True)
         \<and> (if has_exp then s4 \<noteq> [] \<and> list_all is_decimal_digit s4 else s3 = []))"

definition number_input_value :: "js_string \<Rightarrow> bool" where
  "number_input_value s = (if s = [] then True else valid_floating_point_number s)"

text \<open>The sign and the digits of the integer part of a number typed into such an input.\<close>

definition typed_sign :: "js_string \<Rightarrow> int" where
  "typed_sign s = (case s of c # _ \<Rightarrow> if c = 0x2D then - 1 else 1 | [] \<Rightarrow> 1)"

definition integer_digits :: "js_string \<Rightarrow> js_string" where
  "integer_digits s = takeWhile is_decimal_digit (strip_minus s)"

text \<open>
  Where the integer part of a valid floating-point number ends: at the end of the
  string, at the full stop of the fraction or at the letter of the exponent.
\<close>

definition ends_integer_part :: "js_string \<Rightarrow> bool" where
  "ends_integer_part t = (case t of [] \<Rightarrow> True | c # _ \<Rightarrow> c = 0x2E \<or> c = 0x65 \<or> c = 0x45)"

text \<open>
  What the rendered page lets happen. \<^verbatim>\<open>handleSearch\<close> is the form's \<^verbatim>\<open>onSubmit\<close> and
  nothing else calls it; the form's submit button is \<^verbatim>\<open>disabled={loading}\<close>, and a form
  whose submit button is disabled is submitted neither by a click nor by the enter key.
  The Clear button, the only caller of \<^verbatim>\<open>clearHistory\<close>, is rendered for a non-empty
  history only. A year cell receives the value of its number input. A promise settles only
  while it is pending. (The browser's validation of \<^verbatim>\<open>required\<close>, \<^verbatim>\<open>min\<close> and \<^verbatim>\<open>max\<close>
  holds back further submissions; it is not needed below and not modelled.)
\<close>

fun enabled :: "event \<Rightarrow> world \<Rightarrow> bool" where
  "enabled HandleSearch w = (\<not> loading (app w))"
| "enabled ClearHistory w = (searchHistory (app w) \<noteq> [])"
| "enabled (SetYearFrom s) w = number_input_value s"
| "enabled (SetYearTo s) w = number_input_value s"
| "enabled (SearchSettles i out) w = (i < length (in_flight w))"
| "enabled (HistorySettles out) w = (0 < pending_gets w)"
| "enabled (DeleteSettles out) w = (0 < pending_deletes w)"
| "enabled _ w = True"

text \<open>
  A run of the page: \<open>None\<close> as soon as an event is not one the page lets happen.
\<close>

fun page_run :: "event list \<Rightarrow> world \<Rightarrow> world option" where
  "page_run [] w = Some w"
| "page_run (e # es) w = (if enabled e w then page_run es (step e w) else None)"


text \<open>Two search responses, a history item and the traces used as concrete inputs.\<close>

definition paperA :: paper where
  "paperA =
     \<lparr>paper_id = js ''p1'', paper_title = js ''Attention'', paper_authors = Some [js ''A''],
      paper_year = Some 2017, paper_venue = None, paper_abstract = None,
      paper_citation_count = 3, paper_doi = None, paper_url = None, paper_pdf_url = None,
      paper_source = js ''CrossRef''\<rparr>"

definition respA :: search_response where
  "respA =
     \<lparr>resp_papers = [paperA], resp_total_count = 1,
      resp_query_info = \<lparr>qi_query = js ''a'', qi_author = None, qi_venue = None,
                          qi_year_range = js ''any-any''\<rparr>\<rparr>"

definition respB :: search_response where
  "respB =
     \<lparr>resp_papers = [], resp_total_count = 0,
      resp_query_info = \<lparr>qi_query = js ''b'', qi_author = None, qi_venue = None,
                          qi_year_range = js ''any-any''\<rparr>\<rparr>"

definition hist1 :: history_item where
  "hist1 =
     \<lparr>hist_id = js ''h1'', hist_query = js ''a'', hist_result_count = 1,
      hist_timestamp = js ''2025-01-01T00:00:00''\<rparr>"

text \<open>Search "a" succeeds and is displayed; search "b" is then posted and fails.\<close>

definition search_then_failure :: "event list" where
  "search_then_failure =
     [SetQuery (js ''a''), HandleSearch, SearchSettles 0 (Fulfilled respA),
      SetQuery (js ''b''), HandleSearch, SearchSettles 0 (Rejected (js ''Network Error''))]"

text \<open>The history is loaded at mount; the user clears it and the deletion fails.\<close>

definition clear_with_failed_delete :: "event list" where
  "clear_with_failed_delete =
     [Mount, HistorySettles (Fulfilled [hist1]), ClearHistory,
      DeleteSettles (Rejected (js ''Network Error''))]"

section \<open>Properties of the display helpers\<close>

lemma length_js [simp]: "length (js s) = length s"
  by (simp add: js_def)

lemma substring_0: "substring s 0 n = take (nat n) s"
  by (simp add: substring_def Let_def min_def max_def)

lemma truncateAbstract_long:
  assumes "a \<noteq> []" and "int (length a) > m"
  shows "truncateAbstract (Some a) m = Some (take (nat m) a @ js ''...'')"
  using assms by (simp add: truncateAbstract_def substring_0)

lemma truncateAbstract_twice:
  "truncateAbstract (truncateAbstract x m) m = truncateAbstract x m"
proof (cases x)
  case None
  then show ?thesis by (simp add: truncateAbstract_def)
next
  case (Some a)
  show ?thesis
  proof (cases "a = [] \<or> int (length a) \<le> m")
    case True
    with Some show ?thesis by (auto simp: truncateAbstract_def)
  next
    case False
    then have first: "truncateAbstract (Some a) m = Some (take (nat m) a @ js ''...'')"
      using truncateAbstract_long [of a m] by simp
    have "take (nat m) a @ js ''...'' \<noteq> []"
      by (simp add: js_def)
    moreover have "int (length (take (nat m) a @ js ''...'')) > m"
      using False by (auto simp: min_def)
    ultimately have "truncateAbstract (Some (take (nat m) a @ js ''...'')) m
        = Some (take (nat m) (take (nat m) a @ js ''...'') @ js ''...'')"
      by (rule truncateAbstract_long)
    also have "take (nat m) (take (nat m) a @ js ''...'') = take (nat m) a"
    proof -
      from False have "nat m \<le> length a" by linarith
      then show ?thesis by simp
    qed
    finally show ?thesis using Some first by simp
  qed
qed

text \<open>
  C3: \<open>formatAuthors\<close> of the empty list is "Unknown authors", of a one-element list that
  element, of \<open>[A, B]\<close> the string "A and B", and of three or more authors the first two
  names joined by ", " followed by " et al.".
\<close>

theorem formatAuthors_cases:
  "formatAuthors (Some []) = js ''Unknown authors''
   \<and> formatAuthors (Some [a]) = a
   \<and> formatAuthors (Some [a, b]) = a @ js '' and '' @ b
   \<and> formatAuthors (Some (a # b # c # rest)) = a @ js '', '' @ b @ js '' et al.''
   \<and> formatAuthors (Some [js ''A'', js ''B'', js ''C'']) = js ''A, B et al.''"
  by (simp add: formatAuthors_def js_def)

text \<open>
  C4: with the default bound 300, an abstract of at most 300 code units is returned
  unchanged; a longer one yields exactly 303 code units, the first 300 those of the input
  and the last three ASCII periods; an absent abstract is returned absent.
\<close>

theorem truncateAbstract_300:
  "(length a \<le> 300 \<longrightarrow> truncateAbstract (Some a) 300 = Some a)
   \<and> (length a > 300 \<longrightarrow>
        (\<exists>r. truncateAbstract (Some a) 300 = Some r \<and> length r = 303
              \<and> take 300 r = take 300 a \<and> drop 300 r = [0x2E, 0x2E, 0x2E]))
   \<and> truncateAbstract None 300 = None"
proof (intro conjI impI)
  assume "length a \<le> 300"
  then show "truncateAbstract (Some a) 300 = Some a"
    by (simp add: truncateAbstract_def)
next
  assume long: "length a > 300"
  then have "a \<noteq> []" by auto
  with long have "truncateAbstract (Some a) 300 = Some (take 300 a @ js ''...'')"
    using truncateAbstract_long [of a 300] by simp
  moreover have "length (take 300 a @ js ''...'') = 303"
    using long by simp
  moreover have "take 300 (take 300 a @ js ''...'') = take 300 a"
    using long by simp
  moreover have "drop 300 (take 300 a @ js ''...'') = [0x2E, 0x2E, 0x2E]"
    using long by (simp add: js_def)
  ultimately show "\<exists>r. truncateAbstract (Some a) 300 = Some r \<and> length r = 303
      \<and> take 300 r = take 300 a \<and> drop 300 r = [0x2E, 0x2E, 0x2E]"
    by blast
next
  show "truncateAbstract None 300 = None"
    by (simp add: truncateAbstract_def)
qed

text \<open>
  C4, at a short abstract and at one of 301 code units.
\<close>

theorem truncateAbstract_300_witness:
  "length (js ''short abstract'') \<le> 300
   \<and> truncateAbstract (Some (js ''short abstract'')) 300 = Some (js ''short abstract'')
   \<and> length (replicate 301 (0x61 :: 16 word)) > 300
   \<and> (\<exists>r. truncateAbstract (Some (replicate 301 0x61)) 300 = Some r \<and> length r = 303
          \<and> take 300 r = take 300 (replicate 301 0x61) \<and> drop 300 r = [0x2E, 0x2E, 0x2E])"
  using truncateAbstract_300 [of "js ''short abstract''"]
        truncateAbstract_300 [of "replicate 301 (0x61 :: 16 word)"]
  by simp

text \<open>
  C5: truncation is idempotent: truncating an already truncated abstract returns it
  unchanged, for every abstract (absent ones included), with the default bound 300 and
  with any other bound.
\<close>

theorem truncateAbstract_idempotent:
  "truncateAbstract (truncateAbstract x 300) 300 = truncateAbstract x 300
   \<and> truncateAbstract (truncateAbstract x m) m = truncateAbstract x m"
  by (simp add: truncateAbstract_twice)

section \<open>Properties of parseInt\<close>

lemma digit_cases:
  "d < 10 \<Longrightarrow> d = 0 \<or> d = 1 \<or> d = 2 \<or> d = 3 \<or> d = 4 \<or> d = 5 \<or> d = 6 \<or> d = 7 \<or> d = 8 \<or> d = (9::nat)"
  by arith

lemma digit_char_decimal: "d < 10 \<Longrightarrow> is_decimal_digit (digit_char d)"
  using digit_cases [of d] by (auto simp: digit_char_def is_decimal_digit_def)

lemma digit_value_digit_char: "d < 10 \<Longrightarrow> digit_value (digit_char d) = Some d"
  using digit_cases [of d] by (auto simp: digit_value_def digit_char_def)

lemma decimal_digit_not_white: "is_decimal_digit c \<Longrightarrow> \<not> is_white_space c"
  by (auto simp: is_white_space_def is_decimal_digit_def word_le_nat_alt)

lemma decimal_digit_not_sign: "is_decimal_digit c \<Longrightarrow> c \<noteq> 0x2B \<and> c \<noteq> 0x2D \<and> c \<noteq> 0x78 \<and> c \<noteq> 0x58"
  by (auto simp: is_decimal_digit_def)

lemma decimal_digit_radix: "is_decimal_digit c \<Longrightarrow> is_radix_digit 10 c"
  by (auto simp: is_decimal_digit_def is_radix_digit_def digit_value_def word_le_nat_alt)

lemma decimal_digits: "c \<in> set (decimal n) \<Longrightarrow> is_decimal_digit c"
proof (induction n rule: decimal.induct)
  case (1 n)
  show ?case
  proof (cases "n < 10")
    case True
    with "1.prems" show ?thesis
      by (simp add: decimal.simps [of n] digit_char_decimal)
  next
    case False
    with "1.prems" "1.IH" show ?thesis
      by (auto simp: decimal.simps [of n] digit_char_decimal)
  qed
qed

lemma decimal_not_Nil: "decimal n \<noteq> []"
  by (subst decimal.simps) simp

lemma radix_value_snoc:
  "radix_value R (Z @ [c]) = radix_value R Z * int R + (case digit_value c of None \<Rightarrow> 0 | Some d \<Rightarrow> int d)"
  by (simp add: radix_value_def)

lemma radix_value_decimal: "radix_value 10 (decimal n) = int n"
proof (induction n rule: decimal.induct)
  case (1 n)
  show ?case
  proof (cases "n < 10")
    case True
    then show ?thesis
      by (simp add: decimal.simps [of n] radix_value_def digit_value_digit_char)
  next
    case False
    then have "radix_value 10 (decimal n) = int (n div 10) * 10 + int (n mod 10)"
      using "1.IH" by (simp add: decimal.simps [of n] radix_value_snoc digit_value_digit_char)
    also have "\<dots> = int n"
      by (simp add: zdiv_int zmod_int)
    finally show ?thesis .
  qed
qed

lemma parseInt_digits:
  assumes "ds \<noteq> []" and "\<forall>c \<in> set ds. is_decimal_digit c"
  shows "parseInt ds = to_number (radix_value 10 ds)"
proof -
  from assms obtain c cs where ds: "ds = c # cs" by (cases ds) auto
  with assms have c: "is_decimal_digit c" by simp
  have tw: "takeWhile (is_radix_digit 10) ds = ds"
    using assms(2) by (simp add: takeWhile_eq_all_conv decimal_digit_radix)
  have nohex: "\<not> (case ds of a # b # _ \<Rightarrow> a = 0x30 \<and> (b = 0x78 \<or> b = 0x58) | _ \<Rightarrow> False)"
    using assms(2) ds decimal_digit_not_sign by (cases cs) auto
  have dw: "dropWhile is_white_space ds = ds"
    using ds c decimal_digit_not_white by simp
  have sign: "(case ds of c # _ \<Rightarrow> if c = 0x2D then - 1 else 1 | [] \<Rightarrow> (1 :: int)) = 1"
    using ds c decimal_digit_not_sign [of c] by simp
  have strip: "(case ds of c # cs \<Rightarrow> if c = 0x2B \<or> c = 0x2D then cs else ds | [] \<Rightarrow> ds) = ds"
    using ds c decimal_digit_not_sign [of c] by simp
  show ?thesis
    unfolding parseInt_def Let_def dw sign strip
    by (simp add: nohex tw assms(1))
qed

lemma parseInt_minus_digits:
  assumes "ds \<noteq> []" and "\<forall>c \<in> set ds. is_decimal_digit c"
  shows "parseInt (0x2D # ds) = to_number (- radix_value 10 ds)"
proof -
  have tw: "takeWhile (is_radix_digit 10) ds = ds"
    using assms(2) by (simp add: takeWhile_eq_all_conv decimal_digit_radix)
  have nohex: "\<not> (case ds of a # b # _ \<Rightarrow> a = 0x30 \<and> (b = 0x78 \<or> b = 0x58) | _ \<Rightarrow> False)"
  proof (cases ds)
    case Nil then show ?thesis by simp
  next
    case (Cons c cs)
    with assms(2) decimal_digit_not_sign show ?thesis by (cases cs) auto
  qed
  have dw: "dropWhile is_white_space (0x2D # ds) = 0x2D # ds"
    by (simp add: is_white_space_def)
  show ?thesis
    unfolding parseInt_def Let_def dw
    by (simp add: nohex tw assms(1))
qed

lemma parseInt_decimal_int: "parseInt (decimal_int i) = to_number i"
proof (cases "i < 0")
  case True
  then show ?thesis
    using parseInt_minus_digits [of "decimal (nat (- i))"] decimal_digits decimal_not_Nil
    by (simp add: decimal_int_def radix_value_decimal)
next
  case False
  then show ?thesis
    using parseInt_digits [of "decimal (nat i)"] decimal_digits decimal_not_Nil
    by (simp add: decimal_int_def radix_value_decimal)
qed

lemma decimal_int_not_Nil: "decimal_int i \<noteq> []"
  by (simp add: decimal_int_def decimal_not_Nil)

lemma decimal_1800: "decimal_int 1800 = js ''1800''"
  by (simp add: decimal_int_def decimal.simps digit_char_def js_def)

lemma decimal_2020: "decimal_int 2020 = js ''2020''"
  by (simp add: decimal_int_def decimal.simps digit_char_def js_def)

lemma decimal_2018: "decimal_int 2018 = js ''2018''"
  by (simp add: decimal_int_def decimal.simps digit_char_def js_def)

text \<open>
  \<open>parseInt\<close> on what a number input delivers: the sign and the digits of the integer
  part are read, the fraction and the exponent are not.
\<close>

lemma to_number_exact: "\<bar>i\<bar> \<le> 2 ^ 53 \<Longrightarrow> to_number i = Num i"
  by (auto simp: to_number_def round_to_double_def)

lemma radix_digit_10: "is_radix_digit 10 c = is_decimal_digit c"
  by (auto simp: is_radix_digit_def digit_value_def is_decimal_digit_def word_le_nat_alt
        word_less_nat_alt not_le)

lemma takeWhile_radix_10: "takeWhile (is_radix_digit 10) b = takeWhile is_decimal_digit b"
  by (rule takeWhile_cong) (simp_all add: radix_digit_10)

lemma parseInt_body:
  assumes "ends_integer_part (dropWhile is_decimal_digit b)"
  shows "parseInt b = (if takeWhile is_decimal_digit b = [] then NaN
                       else to_number (radix_value 10 (takeWhile is_decimal_digit b)))"
    and "parseInt (0x2D # b) = (if takeWhile is_decimal_digit b = [] then NaN
                       else to_number (- radix_value 10 (takeWhile is_decimal_digit b)))"
proof -
  have first: "b = [] \<or> (\<exists>c cs. b = c # cs \<and> (is_decimal_digit c \<or> c = 0x2E \<or> c = 0x65 \<or> c = 0x45))"
    using assms by (cases b) (auto simp: ends_integer_part_def)
  have dw: "dropWhile is_white_space b = b"
    using first decimal_digit_not_white by (auto simp: is_white_space_def)
  have sign: "(case b of c # _ \<Rightarrow> if c = 0x2D then - 1 else 1 | [] \<Rightarrow> (1 :: int)) = 1"
    using first decimal_digit_not_sign by auto
  have strip: "(case b of c # cs \<Rightarrow> if c = 0x2B \<or> c = 0x2D then cs else b | [] \<Rightarrow> b) = b"
    using first decimal_digit_not_sign by auto
  have nohex: "(case b of a # c # _ \<Rightarrow> a = 0x30 \<and> (c = 0x78 \<or> c = 0x58) | _ \<Rightarrow> False) = False"
  proof (cases b)
    case Nil then show ?thesis by simp
  next
    case (Cons a cs)
    show ?thesis
    proof (cases cs)
      case Nil with Cons show ?thesis by simp
    next
      case (Cons c cs')
      show ?thesis
      proof (cases "is_decimal_digit a")
        case True
        with assms \<open>b = a # cs\<close> Cons have "is_decimal_digit c \<or> c = 0x2E \<or> c = 0x65 \<or> c = 0x45"
          by (auto simp: ends_integer_part_def split: if_splits)
        then have "c \<noteq> 0x78 \<and> c \<noteq> 0x58"
          using decimal_digit_not_sign [of c] by auto
        with \<open>b = a # cs\<close> Cons show ?thesis by simp
      next
        case False
        then have "a \<noteq> 0x30" by (auto simp: is_decimal_digit_def)
        with \<open>b = a # cs\<close> Cons show ?thesis by simp
      qed
    qed
  qed
  show "parseInt b = (if takeWhile is_decimal_digit b = [] then NaN
                       else to_number (radix_value 10 (takeWhile is_decimal_digit b)))"
    unfolding parseInt_def Let_def dw sign strip nohex
    by (simp add: takeWhile_radix_10)
  have dw': "dropWhile is_white_space (0x2D # b) = 0x2D # b"
    by (simp add: is_white_space_def)
  show "parseInt (0x2D # b) = (if takeWhile is_decimal_digit b = [] then NaN
                       else to_number (- radix_value 10 (takeWhile is_decimal_digit b)))"
    unfolding parseInt_def Let_def dw'
    by (simp add: nohex takeWhile_radix_10)
qed

lemma valid_ends_integer_part:
  assumes "valid_floating_point_number s"
  shows "ends_integer_part (dropWhile is_decimal_digit (strip_minus s))"
proof (cases "dropWhile is_decimal_digit (strip_minus s)")
  case Nil
  then show ?thesis by (simp only: ends_integer_part_def list.case)
next
  case (Cons c cs)
  with assms show ?thesis
    by (auto simp: valid_floating_point_number_def Let_def ends_integer_part_def split: if_splits)
qed

lemma parseInt_number_input:
  assumes "valid_floating_point_number s"
  shows "parseInt s = (if integer_digits s = [] then NaN
                       else to_number (typed_sign s * radix_value 10 (integer_digits s)))"
proof (cases "\<exists>b. s = 0x2D # b")
  case True
  then obtain b where s: "s = 0x2D # b" by blast
  then have "strip_minus s = b" "typed_sign s = - 1"
    by (simp_all add: strip_minus_def typed_sign_def)
  with parseInt_body(2) [of b] valid_ends_integer_part [OF assms] s show ?thesis
    by (simp add: integer_digits_def)
next
  case False
  then have "strip_minus s = s" "typed_sign s = 1"
    by (cases s; auto simp: strip_minus_def typed_sign_def)+
  with parseInt_body(1) [of s] valid_ends_integer_part [OF assms] show ?thesis
    by (simp add: integer_digits_def)
qed

lemma sent_year:
  assumes "number_input_value s"
  shows "(if s = [] then None else Some (parseInt s))
     = (if s = [] then None
        else if integer_digits s = [] then Some NaN
        else Some (to_number (typed_sign s * radix_value 10 (integer_digits s))))"
  using assms parseInt_number_input [of s]
  by (auto simp: number_input_value_def split: if_splits)

section \<open>Properties of the search session\<close>

lemmas handler_defs = handleSearch_call_def handleSearch_settle_def loadSearchHistory_call_def
  loadSearchHistory_settle_def clearHistory_call_def clearHistory_settle_def perform_def

lemmas example_defs = initial_world_def initial_state_def respA_def respB_def paperA_def
  hist1_def searchData_def or_null_def trim_def is_white_space_def js_def

subsection \<open>One search at a time\<close>








subsection \<open>Failed searches\<close>

text \<open>
  C2 as stated (after a failed search no prior result set is displayed) fails: search "a"
  succeeds and is displayed, then search "b" is posted and its request is rejected; the
  results and query info of "a" are still the displayed ones, and the state is the one
  the component had before "b" was submitted.
\<close>

theorem failed_search_counterexample:
  "searchResults (app (run search_then_failure initial_world)) = resp_papers respA
   \<and> resp_papers respA \<noteq> []
   \<and> queryInfo (app (run search_then_failure initial_world)) = Some (resp_query_info respA)
   \<and> app (run search_then_failure initial_world) = app (run (take 4 search_then_failure) initial_world)"
  by (simp add: search_then_failure_def handler_defs example_defs)

text \<open>
  C2, amended: for every submitted search whose network call fails, the failure is made
  visible (it is logged and the alert "Search failed. Please try again." is shown) and the
  loading flag is reset; the component has no failed state, and the results, total count
  and query info keep the values they had, so a prior result set stays displayed.
\<close>

theorem failed_search_keeps_display:
  assumes "trim (query (app w)) \<noteq> []" and "n = length (in_flight w)"
  shows "app (run [HandleSearch, SearchSettles n (Rejected e)] w) = (app w)\<lparr>loading := False\<rparr>
    \<and> log (run [HandleSearch, SearchSettles n (Rejected e)] w)
        = log w @ [PreventDefault, HttpPostSearch (searchData (app w)),
                   ConsoleError (js ''Search error:''),
                   Alert (js ''Search failed. Please try again.'')]"
  using assms by (simp add: handler_defs)

text \<open>
  C2, amended, at a failing search for "a" from the initial state.
\<close>

theorem failed_search_keeps_display_witness:
  "trim (query (app (step (SetQuery (js ''a'')) initial_world))) \<noteq> []
   \<and> app (run [HandleSearch, SearchSettles 0 (Rejected (js ''Network Error''))]
            (step (SetQuery (js ''a'')) initial_world))
       = initial_state\<lparr>query := js ''a''\<rparr>"
  using failed_search_keeps_display
    [of "step (SetQuery (js ''a'')) initial_world" 0 "js ''Network Error''"]
  by (simp add: example_defs)

subsection \<open>Blank queries\<close>

text \<open>
  C6 as stated (a blank query raises a local validation signal) fails: with the query
  "   " the handler only calls \<^verbatim>\<open>preventDefault\<close> and returns; it shows no alert and
  logs nothing.
\<close>

theorem blank_query_signal_counterexample:
  "trim (js ''   '') = []
   \<and> handleSearch_call (initial_state\<lparr>query := js ''   ''\<rparr>)
        = (initial_state\<lparr>query := js ''   ''\<rparr>, [PreventDefault])
   \<and> \<not> (\<exists>m. Alert m \<in> set (snd (handleSearch_call (initial_state\<lparr>query := js ''   ''\<rparr>)))
             \<or> ConsoleError m \<in> set (snd (handleSearch_call (initial_state\<lparr>query := js ''   ''\<rparr>))))"
  by (simp add: handler_defs example_defs)

text \<open>
  C6, amended: for every query text that is empty after trimming, the handler returns
  without issuing a network call and leaves the state unchanged; it raises no signal of
  its own: its only effect is the \<^verbatim>\<open>preventDefault\<close> call.
\<close>

theorem blank_query_returns_silently:
  assumes "trim (query (app w)) = []"
  shows "handleSearch_call (app w) = (app w, [PreventDefault])
    \<and> step HandleSearch w = w\<lparr>log := log w @ [PreventDefault]\<rparr>"
  using assms by (simp add: handler_defs)

text \<open>
  C6, amended, at the query "   ".
\<close>

theorem blank_query_returns_silently_witness:
  "trim (query (app (step (SetQuery (js ''   '')) initial_world))) = []
   \<and> step HandleSearch (step (SetQuery (js ''   '')) initial_world)
       = (step (SetQuery (js ''   '')) initial_world)\<lparr>log := [PreventDefault]\<rparr>"
  using blank_query_returns_silently [of "step (SetQuery (js ''   '')) initial_world"]
  by (simp add: example_defs handler_defs)

subsection \<open>Year fields\<close>

text \<open>
  C7 as stated (numeric year inputs are parsed as integers, and a year that is not one
  fails with InvalidYear, no request being sent) fails: ".2e4" is a value the number
  input delivers (the number 2000); \<^verbatim>\<open>parseInt\<close> finds no digit at its start, and the
  request is posted with \<open>NaN\<close> as its \<^verbatim>\<open>year_from\<close>.
\<close>

theorem numeric_year_counterexample:
  "valid_floating_point_number (js ''.2e4'')
   \<and> map_option log (page_run [SetQuery (js ''x''), SetYearFrom (js ''.2e4''), HandleSearch] initial_world)
       = Some [PreventDefault,
               HttpPostSearch \<lparr>sd_query = js ''x'', sd_author = None, sd_venue = None,
                               sd_year_from = Some NaN, sd_year_to = None, sd_limit = 20\<rparr>]"
  by (simp add: handler_defs example_defs parseInt_def is_radix_digit_def digit_value_def
        number_input_value_def valid_floating_point_number_def strip_minus_def
        is_decimal_digit_def Let_def)

text \<open>
  C7, amended: there is no InvalidYear failure. A year field holds the value of a number
  input: it is empty or a valid floating-point number. For every non-blank query and such
  year fields the request is sent, and for \<^verbatim>\<open>year_from\<close> and \<^verbatim>\<open>year_to\<close> alike: an empty
  field sends no year; a field with no digit before its fraction sends \<open>NaN\<close>; any other
  field sends the Number of its sign and the digits of its integer part, the fraction and
  the exponent being ignored. In particular a field holding the plain decimal numeral of
  an integer sends the Number that integer rounds to, which is the integer itself, not
  clamped to any range, when its absolute value is at most \<open>2^53\<close>.
\<close>

theorem year_parsed_not_validated:
  assumes "trim (query st) \<noteq> []"
    and "number_input_value (yearFrom st)" and "number_input_value (yearTo st)"
  shows "snd (handleSearch_call st) = [PreventDefault, HttpPostSearch (searchData st)]
    \<and> sd_year_from (searchData st)
        = (if yearFrom st = [] then None
           else if integer_digits (yearFrom st) = [] then Some NaN
           else Some (to_number (typed_sign (yearFrom st)
                                  * radix_value 10 (integer_digits (yearFrom st)))))
    \<and> sd_year_to (searchData st)
        = (if yearTo st = [] then None
           else if integer_digits (yearTo st) = [] then Some NaN
           else Some (to_number (typed_sign (yearTo st)
                                  * radix_value 10 (integer_digits (yearTo st)))))
    \<and> (\<forall>i. yearFrom st = decimal_int i \<longrightarrow> sd_year_from (searchData st) = Some (to_number i))
    \<and> (\<forall>i. yearTo st = decimal_int i \<longrightarrow> sd_year_to (searchData st) = Some (to_number i))
    \<and> (\<forall>i. \<bar>i\<bar> \<le> 2 ^ 53 \<longrightarrow> to_number i = Num i)"
proof -
  have "snd (handleSearch_call st) = [PreventDefault, HttpPostSearch (searchData st)]"
    using assms(1) by (simp add: handler_defs)
  moreover have "sd_year_from (searchData st)
        = (if yearFrom st = [] then None
           else if integer_digits (yearFrom st) = [] then Some NaN
           else Some (to_number (typed_sign (yearFrom st)
                                  * radix_value 10 (integer_digits (yearFrom st)))))"
    using sent_year [OF assms(2)] by (simp add: searchData_def)
  moreover have "sd_year_to (searchData st)
        = (if yearTo st = [] then None
           else if integer_digits (yearTo st) = [] then Some NaN
           else Some (to_number (typed_sign (yearTo st)
                                  * radix_value 10 (integer_digits (yearTo st)))))"
    using sent_year [OF assms(3)] by (simp add: searchData_def)
  moreover have "\<forall>i. yearFrom st = decimal_int i \<longrightarrow> sd_year_from (searchData st) = Some (to_number i)"
    by (simp add: searchData_def parseInt_decimal_int decimal_int_not_Nil)
  moreover have "\<forall>i. yearTo st = decimal_int i \<longrightarrow> sd_year_to (searchData st) = Some (to_number i)"
    by (simp add: searchData_def parseInt_decimal_int decimal_int_not_Nil)
  ultimately show ?thesis
    by (simp add: to_number_exact)
qed

text \<open>
  C7, amended, at the years ".2e4" and "1800".
\<close>

theorem year_parsed_not_validated_witness:
  "trim (query (initial_state\<lparr>query := js ''x'', yearFrom := js ''.2e4'', yearTo := js ''1800''\<rparr>)) \<noteq> []
   \<and> number_input_value (js ''.2e4'') \<and> number_input_value (js ''1800'')
   \<and> sd_year_from (searchData (initial_state\<lparr>query := js ''x'', yearFrom := js ''.2e4'', yearTo := js ''1800''\<rparr>))
       = Some NaN
   \<and> sd_year_to (searchData (initial_state\<lparr>query := js ''x'', yearFrom := js ''.2e4'', yearTo := js ''1800''\<rparr>))
       = Some (Num 1800)"
proof -
  let ?st = "initial_state\<lparr>query := js ''x'', yearFrom := js ''.2e4'', yearTo := js ''1800''\<rparr>"
  have q: "trim (query ?st) \<noteq> []"
    by (simp add: example_defs)
  have vf: "number_input_value (js ''.2e4'')" and vt: "number_input_value (js ''1800'')"
    by (simp_all add: number_input_value_def valid_floating_point_number_def strip_minus_def
          is_decimal_digit_def Let_def js_def)
  have f: "number_input_value (yearFrom ?st)" and t: "number_input_value (yearTo ?st)"
    using vf vt by simp_all
  have nd: "yearFrom ?st \<noteq> [] \<and> integer_digits (yearFrom ?st) = []"
    by (simp add: integer_digits_def strip_minus_def is_decimal_digit_def js_def)
  have d: "yearTo ?st = decimal_int 1800 \<and> \<bar>1800 :: int\<bar> \<le> 2 ^ 53"
    by (simp add: decimal_1800)
  from year_parsed_not_validated [OF q f t] nd
  have "sd_year_from (searchData ?st) = Some NaN"
    by simp
  moreover from year_parsed_not_validated [OF q f t] d
  have "sd_year_to (searchData ?st) = Some (Num 1800)"
    by metis
  ultimately show ?thesis using q vf vt by blast
qed

text \<open>
  C8 as stated (a request never has \<^verbatim>\<open>year_from\<close> above \<^verbatim>\<open>year_to\<close>; such a query is
  rejected and nothing is sent) fails: with the years "2020" and "2018" the request is
  posted with \<^verbatim>\<open>year_from\<close> 2020 and \<^verbatim>\<open>year_to\<close> 2018.
\<close>

theorem year_order_counterexample:
  "snd (handleSearch_call (initial_state\<lparr>query := js ''x'', yearFrom := js ''2020'', yearTo := js ''2018''\<rparr>))
     = [PreventDefault,
        HttpPostSearch \<lparr>sd_query = js ''x'', sd_author = None, sd_venue = None,
                        sd_year_from = Some (Num 2020), sd_year_to = Some (Num 2018), sd_limit = 20\<rparr>]"
  by (simp add: handler_defs example_defs parseInt_def is_radix_digit_def digit_value_def
        radix_value_def to_number_def round_to_double_def)

text \<open>
  C8, amended: the two year bounds are parsed independently and never compared: for every
  non-blank query and every pair of integers \<open>a\<close> and \<open>b\<close> typed as plain decimal numerals
  into the two year fields, in whatever order, the request is sent, with the Number that
  \<open>a\<close> rounds to as \<^verbatim>\<open>year_from\<close> and the Number that \<open>b\<close> rounds to as \<^verbatim>\<open>year_to\<close>:
  \<open>a\<close> and \<open>b\<close> themselves when their absolute values are at most \<open>2^53\<close>.
\<close>

theorem year_bounds_not_compared:
  assumes "trim (query st) \<noteq> []"
    and "yearFrom st = decimal_int a" and "yearTo st = decimal_int b"
  shows "snd (handleSearch_call st) = [PreventDefault, HttpPostSearch (searchData st)]
    \<and> sd_year_from (searchData st) = Some (to_number a)
    \<and> sd_year_to (searchData st) = Some (to_number b)
    \<and> (\<bar>a\<bar> \<le> 2 ^ 53 \<longrightarrow> sd_year_from (searchData st) = Some (Num a))
    \<and> (\<bar>b\<bar> \<le> 2 ^ 53 \<longrightarrow> sd_year_to (searchData st) = Some (Num b))"
  using assms
  by (simp add: handler_defs searchData_def parseInt_decimal_int to_number_exact decimal_int_not_Nil)

text \<open>
  C8, amended, at the years 2020 and 2018.
\<close>

theorem year_bounds_not_compared_witness:
  "trim (query (initial_state\<lparr>query := js ''x'', yearFrom := js ''2020'', yearTo := js ''2018''\<rparr>)) \<noteq> []
   \<and> sd_year_from (searchData (initial_state\<lparr>query := js ''x'', yearFrom := js ''2020'', yearTo := js ''2018''\<rparr>))
       = Some (Num 2020)
   \<and> sd_year_to (searchData (initial_state\<lparr>query := js ''x'', yearFrom := js ''2020'', yearTo := js ''2018''\<rparr>))
       = Some (Num 2018)
   \<and> snd (handleSearch_call (initial_state\<lparr>query := js ''x'', yearFrom := js ''2020'', yearTo := js ''2018''\<rparr>))
       = [PreventDefault, HttpPostSearch (searchData
            (initial_state\<lparr>query := js ''x'', yearFrom := js ''2020'', yearTo := js ''2018''\<rparr>))]"
proof -
  let ?st = "initial_state\<lparr>query := js ''x'', yearFrom := js ''2020'', yearTo := js ''2018''\<rparr>"
  have q: "trim (query ?st) \<noteq> []"
    by (simp add: example_defs)
  have f: "yearFrom ?st = decimal_int 2020" and t: "yearTo ?st = decimal_int 2018"
    by (simp_all add: decimal_2020 decimal_2018)
  have r: "\<bar>2020 :: int\<bar> \<le> 2 ^ 53" "\<bar>2018 :: int\<bar> \<le> 2 ^ 53"
    by simp_all
  from year_bounds_not_compared [OF q f t] q r show ?thesis
    by blast
qed

subsection \<open>Clearing the history\<close>

text \<open>
  C9 as stated (clearing always refreshes, also when the deletion fails, so that no entry
  cached before the clear is displayed afterwards) fails: the history holds one entry, the
  user clears it and the deletion is rejected; no fetch follows, and the entry is still
  cached and displayed.
\<close>

theorem clear_refresh_counterexample:
  "searchHistory (app (run clear_with_failed_delete initial_world)) = [hist1]
   \<and> displayed_history (app (run clear_with_failed_delete initial_world)) = [hist1]
   \<and> pending_gets (run clear_with_failed_delete initial_world) = 0
   \<and> log (run clear_with_failed_delete initial_world)
       = [HttpGetHistory, HttpDeleteHistory, ConsoleError (js ''Error clearing history:'')]"
  by (simp add: clear_with_failed_delete_def displayed_history_def handler_defs initial_world_def
        initial_state_def)

text \<open>
  C9, amended: every clear requests the deletion at the store. When the deletion fails,
  the failure is logged, no refresh is performed and the cache keeps its entries. When the
  deletion succeeds, the cached list is emptied and a history fetch is started; when the
  next history fetch to settle is fulfilled, the cache becomes the list it carries and the
  display its first ten entries, and when it is rejected the cache stays empty.
\<close>

theorem clearHistory_outcomes:
  "app (run [ClearHistory, DeleteSettles (Rejected e)] w) = app w
   \<and> pending_gets (run [ClearHistory, DeleteSettles (Rejected e)] w) = pending_gets w
   \<and> log (run [ClearHistory, DeleteSettles (Rejected e)] w)
       = log w @ [HttpDeleteHistory, ConsoleError (js ''Error clearing history:'')]
   \<and> log (run [ClearHistory, DeleteSettles (Fulfilled ())] w)
       = log w @ [HttpDeleteHistory, HttpGetHistory]
   \<and> searchHistory (app (run [ClearHistory, DeleteSettles (Fulfilled ())] w)) = []
   \<and> searchHistory (app (run [ClearHistory, DeleteSettles (Fulfilled ()),
        HistorySettles (Fulfilled hs)] w)) = hs
   \<and> displayed_history (app (run [ClearHistory, DeleteSettles (Fulfilled ()),
        HistorySettles (Fulfilled hs)] w)) = take 10 hs
   \<and> searchHistory (app (run [ClearHistory, DeleteSettles (Fulfilled ()),
        HistorySettles (Rejected e)] w)) = []"
  by (simp add: displayed_history_def handler_defs)

subsection \<open>The loading flag\<close>

text \<open>
  C10: a search submission that issues a request sets the loading flag together with the
  request; when a pending request settles, fulfilled or rejected, the flag is reset, so
  no completed request leaves the component loading; and a failed history refresh changes
  nothing of the state.
\<close>

theorem loading_flag_reset:
  "(trim (query (app w)) \<noteq> [] \<longrightarrow>
       loading (app (step HandleSearch w))
       \<and> in_flight (step HandleSearch w) = in_flight w @ [searchData (app w)]
       \<and> log (step HandleSearch w) = log w @ [PreventDefault, HttpPostSearch (searchData (app w))])
   \<and> (i < length (in_flight w) \<longrightarrow>
       \<not> loading (app (step (SearchSettles i out) w))
       \<and> length (in_flight (step (SearchSettles i out) w)) = length (in_flight w) - 1)
   \<and> \<not> loading (fst (handleSearch_settle out st))
   \<and> app (step (HistorySettles (Rejected e)) w) = app w
   \<and> fst (loadSearchHistory_settle (Rejected e) st) = st"
  by (cases out) (auto simp: handler_defs)

text \<open>
  C10, at a search for "a" from the initial state, settled by a failure and by a response.
\<close>

theorem loading_flag_reset_witness:
  "trim (query (app (step (SetQuery (js ''a'')) initial_world))) \<noteq> []
   \<and> loading (app (step HandleSearch (step (SetQuery (js ''a'')) initial_world)))
   \<and> 0 < length (in_flight (step HandleSearch (step (SetQuery (js ''a'')) initial_world)))
   \<and> \<not> loading (app (step (SearchSettles 0 (Rejected (js ''Network Error'')))
                       (step HandleSearch (step (SetQuery (js ''a'')) initial_world))))
   \<and> \<not> loading (app (step (SearchSettles 0 (Fulfilled respA))
                       (step HandleSearch (step (SetQuery (js ''a'')) initial_world))))"
proof -
  let ?w = "step (SetQuery (js ''a'')) initial_world"
  have q: "trim (query (app ?w)) \<noteq> []"
    by (simp add: example_defs)
  have l: "loading (app (step HandleSearch ?w))"
    using loading_flag_reset [of ?w] q by blast
  have n: "0 < length (in_flight (step HandleSearch ?w))"
    using loading_flag_reset [of ?w] q by simp
  have "\<not> loading (app (step (SearchSettles 0 (Rejected (js ''Network Error''))) (step HandleSearch ?w)))"
    using loading_flag_reset [of "step HandleSearch ?w" 0 "Rejected (js ''Network Error'')"] n by blast
  moreover have "\<not> loading (app (step (SearchSettles 0 (Fulfilled respA)) (step HandleSearch ?w)))"
    using loading_flag_reset [of "step HandleSearch ?w" 0 "Fulfilled respA"] n by blast
  ultimately show ?thesis using q l n by blast
qed

end
